theory Spec2Isabelle
  imports Main "HOL-Library.Word"
begin

unbundle bit_operations_syntax

section \<open>Python values\<close>

text \<open>
  A Python \<open>str\<close> is a sequence of Unicode code points, so \<open>len\<close> is the length of the
  list. String literals of the source are written with \<open>lit\<close>.
\<close>

type_synonym pystr = "nat list"

definition lit :: "string \<Rightarrow> pystr" where
  "lit s = map of_char s"

text \<open>\<open>str(n)\<close> for an \<open>int\<close>: decimal digits, with a minus sign for a negative number.\<close>

fun str_nat :: "nat \<Rightarrow> pystr" where
  "str_nat n = (if n < 10 then [48 + n] else str_nat (n div 10) @ [48 + n mod 10])"

declare str_nat.simps [simp del]

definition str_int :: "int \<Rightarrow> pystr" where
  "str_int i = (if i < 0 then 45 # str_nat (nat (- i)) else str_nat (nat i))"

text \<open>
  The values the program reads out of a result row and tests, compares or formats:
  \<open>None\<close> (SQL \<open>NULL\<close>), \<open>int\<close> and \<open>str\<close>. A row is the \<open>dict\<close> that a
  \<open>cursor(dictionary=True)\<close> yields, keyed by column name.
\<close>

datatype pyval = PNone | PInt int | PStr pystr

type_synonym row = "string \<rightharpoonup> pyval"

text \<open>What an f-string puts for \<open>{v}\<close>, that is \<open>str(v)\<close>.\<close>

fun str_val :: "pyval \<Rightarrow> pystr" where
  "str_val PNone = lit ''None''"
| "str_val (PInt i) = str_int i"
| "str_val (PStr s) = s"

text \<open>Truth value of an object in \<open>if v\<close>, \<open>not v\<close>, \<open>v or d\<close>.\<close>

fun truthy :: "pyval \<Rightarrow> bool" where
  "truthy PNone = False"
| "truthy (PInt i) = (i \<noteq> 0)"
| "truthy (PStr s) = (s \<noteq> [])"

text \<open>
  \<open>datetime.date\<close>, \<open>datetime.time\<close> and \<open>datetime.datetime\<close> by their fields (year, month,
  day; hour, minute, second, microsecond).
\<close>

datatype date = Date int int int
datatype datetime = DateTime int int int int int int int


text \<open>
  A \<open>float\<close> is kept as the decimal numeral it was read from: \<open>Nearest neg m e\<close> stands for
  the binary64 value nearest to \<open>\<plusminus> m * 10 ^ e\<close> (the sign is kept apart, as \<open>-0.0\<close> is a
  float). The rounding itself is not carried out; no code modelled here computes with a
  float or compares two of them.
\<close>

datatype pyfloat = Nearest bool nat int | Infinity bool | NaN

text \<open>The values passed as parameters of an SQL statement or of a stored procedure.\<close>

datatype param = Val pyval | PFloat pyfloat | PDate date | PDateTime datetime

section \<open>Exceptions, the state of a run, and sequencing\<close>

text \<open>
  \<open>Error\<close> is \<open>mysql.connector.Error\<close> (with every subclass of it), carrying \<open>str(e)\<close>.
  \<open>RerunException\<close> is what \<open>st.rerun()\<close> raises to end the script run.
\<close>

datatype py_exc =
    Error pystr
  | ValueError
  | KeyError
  | IndexError
  | TypeError
  | UnicodeEncodeError
  | RerunException

text \<open>
  What a run of the script renders, in order. \<open>St_button key disabled\<close> is a button
  offered under the widget key \<open>key\<close>.
\<close>

datatype element =
    St_success pystr
  | St_error pystr
  | St_warning pystr
  | St_info pystr
  | St_markdown pystr
  | St_button pystr bool

text \<open>
  One entry of the journal of database operations: which helper was called, with which
  statement (or procedure name) and parameters, and how it ended: \<open>outcome\<close> is \<open>None\<close>
  when the helper returned and the exception when it raised. The journal is a history
  variable: the program never reads it.
\<close>

datatype op = Query | Execute | CallProc

record call =
  op_of :: op
  sql_of :: string
  params_of :: "param list"
  outcome :: "py_exc option"


text \<open>
  The state threaded through a run. \<open>server\<close> is the MySQL server together with the
  network, of which nothing is known; \<open>opened\<close> counts the connection objects created so
  far (a new connection gets this number as its identity), \<open>unclosed\<close> lists the
  connections on which \<open>close()\<close> has not been called yet.
\<close>

record 'w world =
  server :: 'w
  opened :: nat
  unclosed :: "nat list"
  calls :: "call list"
  shown :: "element list"

type_synonym ('w, 'a) prog = "'w world \<Rightarrow> (py_exc + 'a) \<times> 'w world"

definition ret :: "'a \<Rightarrow> ('w, 'a) prog" where
  "ret x w = (Inr x, w)"

definition raise :: "py_exc \<Rightarrow> ('w, 'a) prog" where
  "raise e w = (Inl e, w)"

definition bnd :: "('w, 'a) prog \<Rightarrow> ('a \<Rightarrow> ('w, 'b) prog) \<Rightarrow> ('w, 'b) prog" where
  "bnd m f w = (case m w of (Inl e, w') \<Rightarrow> (Inl e, w') | (Inr x, w') \<Rightarrow> f x w')"

text \<open>\<open>try: m finally: fin\<close>, for a \<open>fin\<close> that does not raise.\<close>

definition try_finally :: "('w, 'a) prog \<Rightarrow> ('w world \<Rightarrow> 'w world) \<Rightarrow> ('w, 'a) prog" where
  "try_finally m fin w = (case m w of (r, w') \<Rightarrow> (r, fin w'))"


definition render :: "element \<Rightarrow> ('w, unit) prog" where
  "render x w = (Inr (), w\<lparr>shown := shown w @ [x]\<rparr>)"


text \<open>\<open>d[k]\<close> on a \<open>dict\<close>.\<close>

definition getitem :: "('k \<rightharpoonup> 'v) \<Rightarrow> 'k \<Rightarrow> ('w, 'v) prog" where
  "getitem d k = (case d k of None \<Rightarrow> raise KeyError | Some v \<Rightarrow> ret v)"

section \<open>The database helpers (\<open>get_conn\<close>, \<open>query\<close>, \<open>execute\<close>, \<open>call_proc\<close>)\<close>

text \<open>
  The connector and the server behind it are a parameter: one function for each call the
  helpers make, acting on the unknown server state. A call either raises
  \<open>mysql.connector.Error\<close> (\<open>Inl\<close> of its message) or returns. \<open>close\<close> does not raise.
  The first argument of every function but \<open>connect\<close> is the connection.
\<close>

record 'w mysql =
  connect :: "'w \<Rightarrow> (pystr + unit) \<times> 'w"
  cursor :: "nat \<Rightarrow> 'w \<Rightarrow> (pystr + unit) \<times> 'w"
  cur_execute :: "nat \<Rightarrow> string \<Rightarrow> param list \<Rightarrow> 'w \<Rightarrow> (pystr + unit) \<times> 'w"
  fetchall :: "nat \<Rightarrow> 'w \<Rightarrow> (pystr + row list) \<times> 'w"
  rowcount :: "nat \<Rightarrow> 'w \<Rightarrow> int"
  callproc :: "nat \<Rightarrow> string \<Rightarrow> param list \<Rightarrow> 'w \<Rightarrow> (pystr + unit) \<times> 'w"
  stored_results :: "nat \<Rightarrow> 'w \<Rightarrow> (pystr + unit) \<times> 'w"
  commit :: "nat \<Rightarrow> 'w \<Rightarrow> (pystr + unit) \<times> 'w"
  close :: "nat \<Rightarrow> 'w \<Rightarrow> 'w"

text \<open>A call to the connector, run on the server state of the world.\<close>

definition driver :: "('w \<Rightarrow> (pystr + 'a) \<times> 'w) \<Rightarrow> ('w, 'a) prog" where
  "driver f w =
     (case f (server w) of
        (Inl msg, s) \<Rightarrow> (Inl (Error msg), w\<lparr>server := s\<rparr>)
      | (Inr x, s) \<Rightarrow> (Inr x, w\<lparr>server := s\<rparr>))"

text \<open>\<open>mysql.connector.connect(...)\<close>: a new connection object, or \<open>Error\<close>.\<close>

definition get_conn :: "'w mysql \<Rightarrow> ('w, nat) prog" where
  "get_conn B =
     bnd (driver (connect B))
       (\<lambda>_ w. (Inr (opened w), w\<lparr>opened := Suc (opened w), unclosed := opened w # unclosed w\<rparr>))"

definition conn_close :: "'w mysql \<Rightarrow> nat \<Rightarrow> 'w world \<Rightarrow> 'w world" where
  "conn_close B conn w = w\<lparr>server := close B conn (server w), unclosed := remove1 conn (unclosed w)\<rparr>"

text \<open>Appends the journal entry of an operation once it has returned or raised.\<close>

definition journal :: "op \<Rightarrow> string \<Rightarrow> param list \<Rightarrow> ('w, 'a) prog \<Rightarrow> ('w, 'a) prog" where
  "journal k s ps m w =
     (case m w of
        (r, w') \<Rightarrow>
          (r, w'\<lparr>calls := calls w' @
                [\<lparr>op_of = k, sql_of = s, params_of = ps,
                  outcome = (case r of Inl e \<Rightarrow> Some e | Inr _ \<Rightarrow> None)\<rparr>]\<rparr>))"

text \<open>
  In each helper \<open>conn\<close> is \<open>None\<close> until \<open>get_conn()\<close> has returned, so the \<open>finally\<close>
  block closes nothing when the connection could not be made, and closes the connection
  on every other path.
\<close>

definition query :: "'w mysql \<Rightarrow> string \<Rightarrow> param list \<Rightarrow> ('w, row list) prog" where
  "query B sql params =
     journal Query sql params
       (bnd (get_conn B) (\<lambda>conn.
          try_finally
            (bnd (driver (cursor B conn)) (\<lambda>_.
             bnd (driver (cur_execute B conn sql params)) (\<lambda>_.
             driver (fetchall B conn))))
            (conn_close B conn)))"

definition execute :: "'w mysql \<Rightarrow> string \<Rightarrow> param list \<Rightarrow> ('w, int) prog" where
  "execute B sql params =
     journal Execute sql params
       (bnd (get_conn B) (\<lambda>conn.
          try_finally
            (bnd (driver (cursor B conn)) (\<lambda>_.
             bnd (driver (cur_execute B conn sql params)) (\<lambda>_.
             bnd (driver (commit B conn)) (\<lambda>_ w.
             (Inr (rowcount B conn (server w)), w)))))
            (conn_close B conn)))"

definition call_proc :: "'w mysql \<Rightarrow> string \<Rightarrow> param list \<Rightarrow> ('w, unit) prog" where
  "call_proc B name args =
     journal CallProc name args
       (bnd (get_conn B) (\<lambda>conn.
          try_finally
            (bnd (driver (cursor B conn)) (\<lambda>_.
             bnd (driver (callproc B conn name args)) (\<lambda>_.
             bnd (driver (stored_results B conn)) (\<lambda>_.
             driver (commit B conn)))))
            (conn_close B conn)))"

section \<open>Widgets\<close>

text \<open>
  What the user did to trigger this run of the script: at most one button was pressed
  (\<open>clicked\<close>, by widget key; a form's submit button goes by the name of its form), every
  select box has a current choice (\<open>chosen\<close>, by widget key; \<open>None\<close> when the user never
  touched it) and every text field a current content (\<open>typed\<close>, likewise). A widget
  without a \<open>key=\<close> goes by its label.

  The lines of a page that only print columns of a row (\<open>st.write\<close>, \<open>st.caption\<close>, the
  horizontal rule, the column layout) are left out of the page models below: they neither
  reach the database nor decide what runs next. What a model renders is therefore the
  buttons it offers and the message boxes and badges it shows.
\<close>

record ui =
  clicked :: "pystr option"
  chosen :: "pystr \<Rightarrow> pystr option"
  typed :: "pystr \<Rightarrow> pystr option"


text \<open>
  \<open>st.selectbox(label, options, index=index, key=key)\<close>: \<open>None\<close> when there is nothing to
  choose from, else the user's choice, which is one of the options, and the option at
  \<open>index\<close> as long as the user has made none.
\<close>

definition st_selectbox :: "ui \<Rightarrow> pystr \<Rightarrow> pystr list \<Rightarrow> nat \<Rightarrow> pyval" where
  "st_selectbox u key options index =
     (if options = [] then PNone
      else case chosen u key of
             None \<Rightarrow> PStr (options ! index)
           | Some v \<Rightarrow> if v \<in> set options then PStr v else PStr (options ! index))"






section \<open>Deadline badges (\<open>badge\<close>, \<open>expired_badge\<close>, the Opportunities pages)\<close>

definition badge :: "pystr \<Rightarrow> pystr \<Rightarrow> pystr" where
  \<open>badge text color =
     lit ''<span style="padding:2px 8px;border-radius:12px;background:'' @ color
       @ lit '';color:white;font-size:12px;">'' @ text @ lit ''</span>''\<close>

definition expired_badge :: pystr where
  \<open>expired_badge =
     lit ''<span style="padding:2px 8px;border-radius:12px;background:#ef4444;color:white;font-size:12px;">EXPIRED</span>''\<close>

text \<open>\<open>v < n\<close> for an \<open>int\<close> \<open>n\<close>: defined on an \<open>int\<close>, a \<open>TypeError\<close> on \<open>None\<close> and on a \<open>str\<close>.\<close>

fun py_lt_int :: "pyval \<Rightarrow> int \<Rightarrow> ('w, bool) prog" where
  "py_lt_int (PInt i) n = ret (i < n)"
| "py_lt_int _ n = raise TypeError"

text \<open>
  The third column of a row of \<open>page_opportunities_admin\<close>, after the line that prints the
  last date: the \<open>if r['days_left'] is None: ... elif r['days_left'] < 0: ... else: ...\<close>
  chain. \<open>days_left\<close> is the column \<open>fn_days_left_for_opportunity(o.opportunity_id)\<close> of the
  listing query.
\<close>

definition deadline_badge_admin :: "row \<Rightarrow> ('w, unit) prog" where
  "deadline_badge_admin r =
     bnd (getitem r ''days_left'') (\<lambda>d.
       if d = PNone then render (St_markdown (badge (lit ''No Deadline'') (lit ''#6b7280'')))
       else
         bnd (getitem r ''days_left'') (\<lambda>d.
         bnd (py_lt_int d 0) (\<lambda>neg.
           if neg then render (St_markdown expired_badge)
           else
             bnd (getitem r ''days_left'') (\<lambda>d.
               render (St_markdown (badge (str_val d @ lit '' days left'') (lit ''#2563eb'')))))))"

text \<open>The same chain in \<open>page_opportunities_student\<close>.\<close>

definition deadline_badge_student :: "row \<Rightarrow> ('w, unit) prog" where
  "deadline_badge_student r =
     bnd (getitem r ''days_left'') (\<lambda>d.
       if d = PNone then render (St_markdown (badge (lit ''No Deadline'') (lit ''#6b7280'')))
       else
         bnd (getitem r ''days_left'') (\<lambda>d.
         bnd (py_lt_int d 0) (\<lambda>neg.
           if neg then render (St_markdown expired_badge)
           else
             bnd (getitem r ''days_left'') (\<lambda>d.
               render (St_markdown (badge (str_val d @ lit '' days left'') (lit ''#2563eb'')))))))"

section \<open>The admin Applications page (\<open>page_applications_admin\<close>)\<close>










section \<open>The admin Users page (\<open>page_users_admin\<close>), the listing\<close>





section \<open>Scheduling an interview (\<open>page_interviews_admin\<close>, the form)\<close>







section \<open>Applying for an opportunity (\<open>page_opportunities_student\<close>)\<close>





section \<open>The student's profile (\<open>page_student_profile\<close>)\<close>




section \<open>Password hashing (\<open>sha256_hex\<close>)\<close>

text \<open>
  \<open>s.encode("utf-8")\<close>: one to four bytes for each code point; a surrogate (U+D800 to
  U+DFFF) cannot be encoded and raises \<open>UnicodeEncodeError\<close>.
\<close>

type_synonym byte = "8 word"

definition utf8_of :: "nat \<Rightarrow> byte list option" where
  "utf8_of c =
     (if c < 0x80 then Some [word_of_nat c]
      else if c < 0x800 then Some [word_of_nat (0xC0 + c div 64), word_of_nat (0x80 + c mod 64)]
      else if 0xD800 \<le> c \<and> c \<le> 0xDFFF then None
      else if c < 0x10000 then
        Some [word_of_nat (0xE0 + c div 4096), word_of_nat (0x80 + c div 64 mod 64),
              word_of_nat (0x80 + c mod 64)]
      else if c < 0x110000 then
        Some [word_of_nat (0xF0 + c div 262144), word_of_nat (0x80 + c div 4096 mod 64),
              word_of_nat (0x80 + c div 64 mod 64), word_of_nat (0x80 + c mod 64)]
      else None)"

definition encode_utf8 :: "pystr \<Rightarrow> py_exc + byte list" where
  "encode_utf8 s =
     (if list_all (\<lambda>c. utf8_of c \<noteq> None) s then Inr (concat (map (\<lambda>c. the (utf8_of c)) s))
      else Inl UnicodeEncodeError)"

text \<open>
  \<open>hashlib.sha256\<close>: SHA-256 as in FIPS 180-4. The message is padded with the byte
  \<open>0x80\<close>, zero bytes and its length in bits as a 64-bit big-endian number, to a multiple
  of 64 bytes; each block of sixteen 32-bit big-endian words is expanded to sixty-four
  words and run through sixty-four rounds. The round constants \<open>K256\<close> are the first 32 bits
  of the fractional parts of the cube roots of the first sixty-four primes, the initial
  hash value \<open>H256\<close> those of the square roots of the first eight; they are written in
  decimal.
\<close>

type_synonym word32 = "32 word"

definition K256 :: "word32 list" where
  "K256 =
     [1116352408, 1899447441, 3049323471, 3921009573, 961987163, 1508970993, 2453635748, 2870763221,
      3624381080, 310598401, 607225278, 1426881987, 1925078388, 2162078206, 2614888103, 3248222580,
      3835390401, 4022224774, 264347078, 604807628, 770255983, 1249150122, 1555081692, 1996064986,
      2554220882, 2821834349, 2952996808, 3210313671, 3336571891, 3584528711, 113926993, 338241895,
      666307205, 773529912, 1294757372, 1396182291, 1695183700, 1986661051, 2177026350, 2456956037,
      2730485921, 2820302411, 3259730800, 3345764771, 3516065817, 3600352804, 4094571909, 275423344,
      430227734, 506948616, 659060556, 883997877, 958139571, 1322822218, 1537002063, 1747873779,
      1955562222, 2024104815, 2227730452, 2361852424, 2428436474, 2756734187, 3204031479, 3329325298]"

definition H256 :: "word32 list" where
  "H256 = [1779033703, 3144134277, 1013904242, 2773480762, 1359893119, 2600822924, 528734635, 1541459225]"

definition rotr :: "nat \<Rightarrow> word32 \<Rightarrow> word32" where
  "rotr n x = (drop_bit n x) OR (push_bit (32 - n) x)"

definition sha_pad :: "byte list \<Rightarrow> byte list" where
  "sha_pad m =
     m @ [0x80] @ replicate ((119 - length m mod 64) mod 64) 0
       @ map (\<lambda>i. ucast (drop_bit (8 * (7 - i)) (word_of_nat (8 * length m) :: 64 word))) [0..<8]"

fun be32 :: "byte list \<Rightarrow> word32 list" where
  "be32 (a # b # c # d # r) =
     (push_bit 24 (ucast a) OR push_bit 16 (ucast b) OR push_bit 8 (ucast c) OR ucast d) # be32 r"
| "be32 _ = []"

fun blocks :: "nat \<Rightarrow> word32 list \<Rightarrow> word32 list list" where
  "blocks 0 ws = []"
| "blocks (Suc k) ws = take 16 ws # blocks k (drop 16 ws)"

fun expand :: "nat \<Rightarrow> word32 list \<Rightarrow> word32 list" where
  "expand 0 w = w"
| "expand (Suc k) w =
     (let t = length w;
          s0 = rotr 7 (w ! (t - 15)) XOR rotr 18 (w ! (t - 15)) XOR drop_bit 3 (w ! (t - 15));
          s1 = rotr 17 (w ! (t - 2)) XOR rotr 19 (w ! (t - 2)) XOR drop_bit 10 (w ! (t - 2))
      in expand k (w @ [w ! (t - 16) + s0 + w ! (t - 7) + s1]))"

fun round256 :: "word32 list \<Rightarrow> word32 \<times> word32 \<Rightarrow> word32 list" where
  "round256 [a, b, c, d, e, f, g, h] (k, w) =
     (let S1 = rotr 6 e XOR rotr 11 e XOR rotr 25 e;
          ch = (e AND f) XOR (NOT e AND g);
          t1 = h + S1 + ch + k + w;
          S0 = rotr 2 a XOR rotr 13 a XOR rotr 22 a;
          mj = (a AND b) XOR (a AND c) XOR (b AND c);
          t2 = S0 + mj
      in [t1 + t2, a, b, c, d + t1, e, f, g])"
| "round256 v _ = v"

definition compress :: "word32 list \<Rightarrow> word32 list \<Rightarrow> word32 list" where
  "compress h blk = map2 (+) h (foldl round256 h (zip K256 (expand 48 blk)))"

definition sha256 :: "byte list \<Rightarrow> byte list" where
  "sha256 m =
     concat (map (\<lambda>x. map (\<lambda>i. ucast (drop_bit (8 * (3 - i)) x)) [0..<4])
       (foldl compress H256 (blocks (length (sha_pad m) div 64) (be32 (sha_pad m)))))"

text \<open>\<open>.hexdigest()\<close>: two lowercase hexadecimal digits for each byte.\<close>

definition hexchar :: "nat \<Rightarrow> nat" where
  "hexchar d = (if d < 10 then 48 + d else 87 + d)"

definition hexdigest :: "byte list \<Rightarrow> pystr" where
  "hexdigest bs = concat (map (\<lambda>b. [hexchar (unat b div 16), hexchar (unat b mod 16)]) bs)"

definition sha256_hex :: "pystr \<Rightarrow> py_exc + pystr" where
  "sha256_hex s = (case encode_utf8 s of Inl e \<Rightarrow> Inl e | Inr bs \<Rightarrow> Inr (hexdigest (sha256 bs)))"

text \<open>A computation without effect that may raise, as a step of a run.\<close>

definition lift :: "py_exc + 'a \<Rightarrow> ('w, 'a) prog" where
  "lift r = (case r of Inl e \<Rightarrow> raise e | Inr x \<Rightarrow> ret x)"

section \<open>Login (\<open>authenticate\<close>) and navigation (\<open>main\<close>)\<close>

text \<open>
  The dict that \<open>authenticate\<close> returns and \<open>st.session_state.auth\<close> holds: always the four
  keys \<open>user_id\<close>, \<open>username\<close>, \<open>role\<close>, \<open>student_id\<close>.
\<close>

record auth =
  user_id :: pyval
  username :: pyval
  role :: pyval
  student_id :: pyval

definition authenticate :: "'w mysql \<Rightarrow> pystr \<Rightarrow> pystr \<Rightarrow> ('w, auth option) prog" where
  "authenticate B uname password =
     bnd (query B ''SELECT user_id, username, password_hash, role, student_id FROM users WHERE username=%s''
            [Val (PStr uname)]) (\<lambda>rows.
       case rows of
         [] \<Rightarrow> ret None
       | u # _ \<Rightarrow>
           bnd (getitem u ''password_hash'') (\<lambda>stored.
           bnd (lift (sha256_hex password)) (\<lambda>h.
             if stored = PStr h then
               bnd (getitem u ''user_id'') (\<lambda>i.
               bnd (getitem u ''username'') (\<lambda>n.
               bnd (getitem u ''role'') (\<lambda>ro.
               bnd (getitem u ''student_id'') (\<lambda>s.
               ret (Some \<lparr>user_id = i, username = n, role = ro, student_id = s\<rparr>)))))
             else ret None)))"

text \<open>The page functions, by name, and the two navigation dicts in their order.\<close>

datatype page_fn =
    Page_students
  | Page_opportunities_admin
  | Page_announcements_admin
  | Page_assessments_admin
  | Page_interviews_admin
  | Page_applications_admin
  | Page_reports
  | Page_users_admin
  | Page_student_dashboard
  | Page_student_profile
  | Page_opportunities_student

definition PAGES_ADMIN :: "(pystr \<times> page_fn) list" where
  "PAGES_ADMIN =
     [(lit ''Students'', Page_students),
      (lit ''Opportunities'', Page_opportunities_admin),
      (lit ''Announcements'', Page_announcements_admin),
      (lit ''Assessments'', Page_assessments_admin),
      (lit ''Interviews'', Page_interviews_admin),
      (lit ''Applications'', Page_applications_admin),
      (lit ''Reports'', Page_reports),
      (lit ''Users'', Page_users_admin)]"

definition PAGES_STUDENT :: "(pystr \<times> page_fn) list" where
  "PAGES_STUDENT =
     [(lit ''My Dashboard'', Page_student_dashboard),
      (lit ''My Profile'', Page_student_profile),
      (lit ''Opportunities'', Page_opportunities_student),
      (lit ''Reports'', Page_reports)]"

text \<open>
  What a run of \<open>main\<close> comes to: the login form; a page function called with the
  student id or with no argument; an error message and nothing else; \<open>st.rerun()\<close> after
  a logout; or an exception.
\<close>

datatype outcome =
    Login_ui
  | Invoke page_fn "pyval option"
  | Error_only pystr
  | Rerun
  | Crash py_exc

text \<open>\<open>PAGES[page_name](...)\<close>.\<close>

fun invoke :: "(pystr \<times> page_fn) list \<Rightarrow> pyval \<Rightarrow> pyval option \<Rightarrow> outcome" where
  "invoke pages (PStr n) arg = (case map_of pages n of None \<Rightarrow> Crash KeyError | Some f \<Rightarrow> Invoke f arg)"
| "invoke pages _ arg = Crash KeyError"

text \<open>
  \<open>main\<close>, from the session state \<open>st.session_state.auth\<close> and the user's action to the
  outcome of the run and the new session state.
\<close>

definition main :: "auth option \<Rightarrow> ui \<Rightarrow> outcome \<times> auth option" where
  "main session u =
     (case session of
        None \<Rightarrow> (Login_ui, None)
      | Some a \<Rightarrow>
          if role a = PStr (lit ''ADMIN'') then
            (let page_name = st_selectbox u (lit ''Navigate'') (map fst PAGES_ADMIN) 0 in
             if clicked u = Some (lit ''Logout'') then (Rerun, None)
             else (invoke PAGES_ADMIN page_name None, session))
          else if role a = PStr (lit ''STUDENT'') then
            (if \<not> truthy (student_id a) then
               (if clicked u = Some (lit ''Logout'') then (Rerun, None)
                else (Error_only (lit ''This student user is not linked to a student record. Ask Admin to link it.''),
                      session))
             else
               (let page_name = st_selectbox u (lit ''Navigate'') (map fst PAGES_STUDENT) 0 in
                if clicked u = Some (lit ''Logout'') then (Rerun, None)
                else if page_name \<in> set [PStr (lit ''My Dashboard''), PStr (lit ''My Profile''),
                                         PStr (lit ''Opportunities'')]
                then (invoke PAGES_STUDENT page_name (Some (student_id a)), session)
                else (invoke PAGES_STUDENT page_name None, session)))
          else
            (if clicked u = Some (lit ''Logout'') then (Rerun, None)
             else (Error_only (lit ''Unknown role.''), session)))"

text \<open>The admin pages that write: every admin page but the read-only reports.\<close>

definition admin_crud_pages :: "page_fn set" where
  "admin_crud_pages =
     {Page_students, Page_opportunities_admin, Page_announcements_admin, Page_assessments_admin,
      Page_interviews_admin, Page_applications_admin, Page_users_admin}"

section \<open>Backends used in the examples\<close>

text \<open>
  A server that counts the calls made to the connector: call number \<open>n\<close> (from 0) raises
  \<open>Error\<close> with the message \<open>gone away\<close>, every other call returns; \<open>fetchall\<close> returns
  \<open>rows\<close> and \<open>rowcount\<close> is 1.
\<close>

definition answer :: "nat \<Rightarrow> 'a \<Rightarrow> nat \<Rightarrow> (pystr + 'a) \<times> nat" where
  "answer n x s = (if s = n then Inl (lit ''gone away'') else Inr x, Suc s)"

definition failing_at :: "nat \<Rightarrow> row list \<Rightarrow> nat mysql" where
  "failing_at n rows =
     \<lparr>connect = answer n (),
      cursor = (\<lambda>_. answer n ()),
      cur_execute = (\<lambda>_ _ _. answer n ()),
      fetchall = (\<lambda>_. answer n rows),
      rowcount = (\<lambda>_ _. 1),
      callproc = (\<lambda>_ _ _. answer n ()),
      stored_results = (\<lambda>_. answer n ()),
      commit = (\<lambda>_. answer n ()),
      close = (\<lambda>_ s. s)\<rparr>"

definition world0 :: "nat world" where
  "world0 = \<lparr>server = 0, opened = 0, unclosed = [], calls = [], shown = []\<rparr>"











definition aarav :: auth where
  "aarav = \<lparr>user_id = PInt 2, username = PStr (lit ''aarav''), role = PStr (lit ''STUDENT''),
            student_id = PInt 1\<rparr>"

definition open_profile :: ui where
  "open_profile =
     \<lparr>clicked = None, chosen = (\<lambda>_. None)(lit ''Navigate'' \<mapsto> lit ''My Profile''),
      typed = (\<lambda>_. None)\<rparr>"

text \<open>The row of \<open>users\<close> for \<open>admin\<close>, whose password is \<open>adminpass\<close>.\<close>

definition admin_record :: row where
  "admin_record =
     [''user_id'' \<mapsto> PInt 1, ''username'' \<mapsto> PStr (lit ''admin''),
      ''password_hash'' \<mapsto> PStr (lit ''713bfda78870bf9d1b261f565286f85e97ee614efe5f0faf7c34e7ca4f65baca''),
      ''role'' \<mapsto> PStr (lit ''ADMIN''), ''student_id'' \<mapsto> PNone]"

section \<open>What one database operation does to the state\<close>

lemma getitem_Some [simp]: "d k = Some v \<Longrightarrow> getitem d k = ret v"
  by (simp add: getitem_def)

lemma bnd_ret [simp]: "bnd (ret x) f = f x"
  by (rule ext) (simp add: bnd_def ret_def)

lemma bnd_raise [simp]: "bnd (raise e) f = raise e"
  by (rule ext) (simp add: bnd_def raise_def)

lemma driver_frame:
  "driver f w = (r, w') \<Longrightarrow>
     opened w' = opened w \<and> unclosed w' = unclosed w \<and> calls w' = calls w \<and> shown w' = shown w"
  by (auto simp: driver_def split: prod.splits sum.splits)

lemma driver_raises: "driver f w = (Inl e, w') \<Longrightarrow> \<exists>m. e = Error m"
  by (auto simp: driver_def split: prod.splits sum.splits)

lemma get_conn_raises: "get_conn B w = (Inl e, w') \<Longrightarrow> \<exists>m. e = Error m"
  by (auto simp: get_conn_def bnd_def driver_def split: prod.splits sum.splits)

lemma get_conn_frame: "get_conn B w = (r, w') \<Longrightarrow> calls w' = calls w \<and> shown w' = shown w"
  by (auto simp: get_conn_def bnd_def driver_def split: prod.splits sum.splits)

lemma bnd_cases:
  assumes "bnd m f w = (r, w')"
  obtains (raised) e where "m w = (Inl e, w')" "r = Inl e"
        | (went_on) x w1 where "m w = (Inr x, w1)" "f x w1 = (r, w')"
  using assms by (auto simp: bnd_def split: prod.splits sum.splits)

text \<open>The part of a helper that runs once the connection is there.\<close>

definition plain :: "('w, 'a) prog \<Rightarrow> bool" where
  "plain m = (\<forall>w r w'. m w = (r, w') \<longrightarrow>
      calls w' = calls w \<and> shown w' = shown w \<and> (\<forall>e. r = Inl e \<longrightarrow> (\<exists>msg. e = Error msg)))"

lemma plain_driver: "plain (driver f)"
  unfolding plain_def using driver_frame driver_raises by blast

lemma plain_bnd: "plain m \<Longrightarrow> (\<And>x. plain (f x)) \<Longrightarrow> plain (bnd m f)"
  unfolding plain_def
  apply (intro allI impI)
  apply (erule bnd_cases)
   apply blast
  apply (metis (no_types, lifting))
  done


lemma helper_effect:
  assumes body: "\<And>conn. plain (body conn)"
      and run: "journal k s ps (bnd (get_conn B) (\<lambda>conn. try_finally (body conn) (conn_close B conn))) w = (r, w')"
  shows "calls w' = calls w @ [\<lparr>op_of = k, sql_of = s, params_of = ps, outcome = (case r of Inl e \<Rightarrow> Some e | Inr _ \<Rightarrow> None)\<rparr>]
       \<and> shown w' = shown w \<and> (\<forall>e. r = Inl e \<longrightarrow> (\<exists>msg. e = Error msg))"
proof -
  obtain w1 where w1: "bnd (get_conn B) (\<lambda>conn. try_finally (body conn) (conn_close B conn)) w = (r, w1)"
    and w': "w' = w1\<lparr>calls := calls w1 @ [\<lparr>op_of = k, sql_of = s, params_of = ps, outcome = (case r of Inl e \<Rightarrow> Some e | Inr _ \<Rightarrow> None)\<rparr>]\<rparr>"
    using run by (auto simp: journal_def split: prod.splits)
  have "calls w1 = calls w \<and> shown w1 = shown w \<and> (\<forall>e. r = Inl e \<longrightarrow> (\<exists>msg. e = Error msg))"
    using w1
  proof (cases rule: bnd_cases)
    case (raised e)
    then show ?thesis using get_conn_raises get_conn_frame by blast
  next
    case (went_on conn w2)
    obtain w3 where b: "body conn w2 = (r, w3)" and c: "w1 = conn_close B conn w3"
      using went_on(2) by (auto simp: try_finally_def split: prod.splits)
    from body [of conn] b have "calls w3 = calls w2 \<and> shown w3 = shown w2
        \<and> (\<forall>e. r = Inl e \<longrightarrow> (\<exists>msg. e = Error msg))"
      unfolding plain_def by blast
    with c get_conn_frame [OF went_on(1)] show ?thesis
      by (simp add: conn_close_def)
  qed
  with w' show ?thesis by simp
qed


lemma query_effect:
  assumes "query B sql ps w = (r, w')"
  shows "calls w' = calls w @ [\<lparr>op_of = Query, sql_of = sql, params_of = ps, outcome = (case r of Inl e \<Rightarrow> Some e | Inr _ \<Rightarrow> None)\<rparr>]
       \<and> shown w' = shown w \<and> (\<forall>e. r = Inl e \<longrightarrow> (\<exists>msg. e = Error msg))"
  by (rule helper_effect [OF _ assms [unfolded query_def]])
     (intro plain_bnd plain_driver)



lemma query_cases:
  obtains (raised) msg w' where
      "query B sql ps w = (Inl (Error msg), w')"
      "calls w' = calls w @ [\<lparr>op_of = Query, sql_of = sql, params_of = ps, outcome = Some (Error msg)\<rparr>]"
      "shown w' = shown w"
  | (returned) rows w' where
      "query B sql ps w = (Inr rows, w')"
      "calls w' = calls w @ [\<lparr>op_of = Query, sql_of = sql, params_of = ps, outcome = None\<rparr>]"
      "shown w' = shown w"
proof (cases "query B sql ps w")
  case (Pair r w')
  from query_effect [OF Pair] Pair raised returned show ?thesis
    by (cases r) auto
qed


text \<open>The counting server of the examples, as long as no call fails.\<close>

lemma failing_at_query:
  "server w0 + 4 < n \<Longrightarrow>
   query (failing_at n rows) sql ps w0
     = (Inr rows, w0\<lparr>server := server w0 + 4, opened := Suc (opened w0),
          calls := calls w0 @ [\<lparr>op_of = Query, sql_of = sql, params_of = ps, outcome = None\<rparr>]\<rparr>)"
  by (simp add: query_def journal_def bnd_def get_conn_def driver_def try_finally_def
      conn_close_def failing_at_def answer_def)



section \<open>Connections do not outlive an operation\<close>

lemma get_conn_cases:
  "get_conn B w = (r, w') \<Longrightarrow>
     (isl (fst (connect B (server w))) \<and> isl r \<and> opened w' = opened w \<and> unclosed w' = unclosed w) \<or>
     (\<not> isl (fst (connect B (server w))) \<and> r = Inr (opened w) \<and> opened w' = Suc (opened w)
        \<and> unclosed w' = opened w # unclosed w)"
  by (auto simp: get_conn_def bnd_def driver_def split: prod.splits sum.splits)

lemma with_conn_closed:
  assumes body: "\<And>conn w1 r w2. body conn w1 = (r, w2) \<Longrightarrow> unclosed w2 = unclosed w1 \<and> opened w2 = opened w1"
  shows "unclosed (snd (journal k s ps (bnd (get_conn B) (\<lambda>conn. try_finally (body conn) (conn_close B conn))) w))
           = unclosed w
       \<and> opened (snd (journal k s ps (bnd (get_conn B) (\<lambda>conn. try_finally (body conn) (conn_close B conn))) w))
           = (if isl (fst (connect B (server w))) then opened w else Suc (opened w))"
proof (cases "get_conn B w")
  case (Pair r w1)
  note gc = get_conn_cases [OF Pair]
  show ?thesis
  proof (cases r)
    case (Inl e)
    with gc Pair show ?thesis
      by (auto simp: journal_def bnd_def)
  next
    case (Inr conn)
    obtain r2 w2 where b: "body conn w1 = (r2, w2)" by (cases "body conn w1")
    from body [OF b] gc Pair Inr b show ?thesis
      by (auto simp: journal_def bnd_def try_finally_def conn_close_def)
  qed
qed

lemma bnd_frame:
  assumes m: "\<And>w r w'. m w = (r, w') \<Longrightarrow> unclosed w' = unclosed w \<and> opened w' = opened w"
      and f: "\<And>x w r w'. f x w = (r, w') \<Longrightarrow> unclosed w' = unclosed w \<and> opened w' = opened w"
      and run: "bnd m f w = (r, w')"
  shows "unclosed w' = unclosed w \<and> opened w' = opened w"
proof (cases "m w")
  case (Pair r1 w1)
  show ?thesis
  proof (cases r1)
    case (Inl e)
    with Pair run m [OF Pair] show ?thesis by (simp add: bnd_def)
  next
    case (Inr x)
    with Pair run have "f x w1 = (r, w')" by (simp add: bnd_def)
    from f [OF this] m [OF Pair] show ?thesis by simp
  qed
qed

lemma driver_frame2:
  "driver f w = (r, w') \<Longrightarrow> unclosed w' = unclosed w \<and> opened w' = opened w"
  using driver_frame by blast

text \<open>
  C8. Each of \<open>query\<close>, \<open>execute\<close> and \<open>call_proc\<close> makes one connection of its own (none
  if the server cannot be reached) and has called \<open>close()\<close> on it when it returns or
  raises, whatever the connector does in between: after the operation the connections
  left unclosed are the ones that were unclosed before it, and the count of connections
  made has grown by exactly one when \<open>connect\<close> succeeded.
\<close>

theorem connection_per_operation:
  "unclosed (snd (query B sql ps w)) = unclosed w
   \<and> unclosed (snd (execute B sql ps w)) = unclosed w
   \<and> unclosed (snd (call_proc B name ps w)) = unclosed w
   \<and> opened (snd (query B sql ps w)) = (if isl (fst (connect B (server w))) then opened w else Suc (opened w))
   \<and> opened (snd (execute B sql ps w)) = (if isl (fst (connect B (server w))) then opened w else Suc (opened w))
   \<and> opened (snd (call_proc B name ps w)) = (if isl (fst (connect B (server w))) then opened w else Suc (opened w))"
proof -
  have q: "\<And>conn w1 r w2.
      bnd (driver (cursor B conn)) (\<lambda>_.
        bnd (driver (cur_execute B conn sql ps)) (\<lambda>_. driver (fetchall B conn))) w1 = (r, w2)
      \<Longrightarrow> unclosed w2 = unclosed w1 \<and> opened w2 = opened w1"
    by (erule bnd_frame [rotated 2]) (auto dest: driver_frame2 elim!: bnd_frame [rotated 2])
  have e: "\<And>conn w1 r w2.
      bnd (driver (cursor B conn)) (\<lambda>_.
        bnd (driver (cur_execute B conn sql ps)) (\<lambda>_.
        bnd (driver (commit B conn)) (\<lambda>_ w. (Inr (rowcount B conn (server w)), w)))) w1 = (r, w2)
      \<Longrightarrow> unclosed w2 = unclosed w1 \<and> opened w2 = opened w1"
    by (erule bnd_frame [rotated 2]) (auto dest: driver_frame2 elim!: bnd_frame [rotated 2])
  have c: "\<And>conn w1 r w2.
      bnd (driver (cursor B conn)) (\<lambda>_.
        bnd (driver (callproc B conn name ps)) (\<lambda>_.
        bnd (driver (stored_results B conn)) (\<lambda>_. driver (commit B conn)))) w1 = (r, w2)
      \<Longrightarrow> unclosed w2 = unclosed w1 \<and> opened w2 = opened w1"
    by (erule bnd_frame [rotated 2]) (auto dest: driver_frame2 elim!: bnd_frame [rotated 2])
  note Q = with_conn_closed [where body = "\<lambda>conn. bnd (driver (cursor B conn)) (\<lambda>_.
        bnd (driver (cur_execute B conn sql ps)) (\<lambda>_. driver (fetchall B conn)))", OF q]
  note E = with_conn_closed [where body = "\<lambda>conn. bnd (driver (cursor B conn)) (\<lambda>_.
        bnd (driver (cur_execute B conn sql ps)) (\<lambda>_.
        bnd (driver (commit B conn)) (\<lambda>_ w. (Inr (rowcount B conn (server w)), w))))", OF e]
  note C = with_conn_closed [where body = "\<lambda>conn. bnd (driver (cursor B conn)) (\<lambda>_.
        bnd (driver (callproc B conn name ps)) (\<lambda>_.
        bnd (driver (stored_results B conn)) (\<lambda>_. driver (commit B conn))))", OF c]
  show ?thesis
    unfolding query_def execute_def call_proc_def
    using Q [where k = Query and s = sql and ps = ps and w = w]
          E [where k = Execute and s = sql and ps = ps and w = w]
          C [where k = CallProc and s = name and ps = ps and w = w]
    by simp
qed

text \<open>
  An instance in which the statement itself fails: the third call to the connector
  (\<open>cursor.execute\<close>, after \<open>connect\<close> and \<open>cursor\<close>) raises. \<open>execute\<close> raises the error, one
  connection was made, none is left unclosed.
\<close>

lemma connection_per_operation_example:
  "execute (failing_at 2 []) ''DELETE FROM student WHERE student_id=%s'' [Val (PInt 7)] world0
     = (Inl (Error (lit ''gone away'')),
        \<lparr>server = 3, opened = 1, unclosed = [],
         calls = [\<lparr>op_of = Execute, sql_of = ''DELETE FROM student WHERE student_id=%s'',
                   params_of = [Val (PInt 7)], outcome = Some (Error (lit ''gone away''))\<rparr>],
         shown = []\<rparr>)"
  by (simp add: execute_def journal_def bnd_def get_conn_def driver_def try_finally_def
      conn_close_def failing_at_def answer_def world0_def)

section \<open>Deadline badges: the threshold\<close>

text \<open>
  C3. For a row of the admin or of the student Opportunities page whose \<open>days_left\<close> is
  \<open>d\<close>, the one thing rendered by the deadline chain is: the grey \<open>No Deadline\<close> badge when
  \<open>d\<close> is \<open>None\<close>; the \<open>EXPIRED\<close> badge when \<open>d\<close> is an integer below zero; the blue badge
  \<open>"{d} days left"\<close> when \<open>d\<close> is an integer that is zero or more.
\<close>

theorem deadline_badge_threshold:
  assumes "r ''days_left'' = Some d"
  shows "(d = PNone \<longrightarrow>
            deadline_badge_admin r w
              = (Inr (), w\<lparr>shown := shown w @ [St_markdown (badge (lit ''No Deadline'') (lit ''#6b7280''))]\<rparr>)
          \<and> deadline_badge_student r w
              = (Inr (), w\<lparr>shown := shown w @ [St_markdown (badge (lit ''No Deadline'') (lit ''#6b7280''))]\<rparr>))
       \<and> (\<forall>n. d = PInt n \<and> n < 0 \<longrightarrow>
            deadline_badge_admin r w = (Inr (), w\<lparr>shown := shown w @ [St_markdown expired_badge]\<rparr>)
          \<and> deadline_badge_student r w = (Inr (), w\<lparr>shown := shown w @ [St_markdown expired_badge]\<rparr>))
       \<and> (\<forall>n. d = PInt n \<and> 0 \<le> n \<longrightarrow>
            deadline_badge_admin r w
              = (Inr (), w\<lparr>shown := shown w @
                   [St_markdown (badge (str_int n @ lit '' days left'') (lit ''#2563eb''))]\<rparr>)
          \<and> deadline_badge_student r w
              = (Inr (), w\<lparr>shown := shown w @
                   [St_markdown (badge (str_int n @ lit '' days left'') (lit ''#2563eb''))]\<rparr>))"
  using assms
  by (auto simp: deadline_badge_admin_def deadline_badge_student_def render_def ret_def)

theorem deadline_badge_threshold_witness:
  "deadline_badge_admin [''days_left'' \<mapsto> PNone] world0
     = (Inr (), world0\<lparr>shown := [St_markdown (badge (lit ''No Deadline'') (lit ''#6b7280''))]\<rparr>)
   \<and> deadline_badge_student [''days_left'' \<mapsto> PInt (- 3)] world0
     = (Inr (), world0\<lparr>shown := [St_markdown expired_badge]\<rparr>)
   \<and> deadline_badge_admin [''days_left'' \<mapsto> PInt 0] world0
     = (Inr (), world0\<lparr>shown := [St_markdown (badge (lit ''0 days left'') (lit ''#2563eb''))]\<rparr>)
   \<and> deadline_badge_student [''days_left'' \<mapsto> PInt 12] world0
     = (Inr (), world0\<lparr>shown := [St_markdown (badge (lit ''12 days left'') (lit ''#2563eb''))]\<rparr>)"
  using deadline_badge_threshold [of "[''days_left'' \<mapsto> PNone]" PNone world0]
        deadline_badge_threshold [of "[''days_left'' \<mapsto> PInt (- 3)]" "PInt (- 3)" world0]
        deadline_badge_threshold [of "[''days_left'' \<mapsto> PInt 0]" "PInt 0" world0]
        deadline_badge_threshold [of "[''days_left'' \<mapsto> PInt 12]" "PInt 12" world0]
  by (simp add: world0_def lit_def str_int_def str_nat.simps)
section \<open>The audit trail of the admin Applications page\<close>






























section \<open>The Delete button of the admin Users page\<close>












section \<open>The two workflows go through stored procedures\<close>

















section \<open>Saving the contact information\<close>







section \<open>Navigation by role\<close>

lemma selectbox_member:
  "options \<noteq> [] \<Longrightarrow> \<exists>v \<in> set options. st_selectbox u key options 0 = PStr v"
  by (cases options) (auto simp: st_selectbox_def split: option.splits)

lemma admin_reach:
  assumes "role a = PStr (lit ''ADMIN'')" and "(n, f) \<in> set PAGES_ADMIN"
  shows "fst (main (Some a) \<lparr>clicked = None, chosen = (\<lambda>_. Some n), typed = (\<lambda>_. None)\<rparr>) = Invoke f None"
proof -
  from assms(2) consider "n = lit ''Students''" "f = Page_students" | "n = lit ''Opportunities''" "f = Page_opportunities_admin" | "n = lit ''Announcements''" "f = Page_announcements_admin" | "n = lit ''Assessments''" "f = Page_assessments_admin" | "n = lit ''Interviews''" "f = Page_interviews_admin" | "n = lit ''Applications''" "f = Page_applications_admin" | "n = lit ''Reports''" "f = Page_reports" | "n = lit ''Users''" "f = Page_users_admin"
    unfolding PAGES_ADMIN_def by auto
  then show ?thesis
    by cases (simp_all add: main_def assms(1) PAGES_ADMIN_def st_selectbox_def lit_def)
qed

lemma admin_only:
  assumes r: "role a = PStr (lit ''ADMIN'')" and i: "fst (main (Some a) u) = Invoke f arg"
  shows "arg = None \<and> (\<exists>n. (n, f) \<in> set PAGES_ADMIN)"
proof -
  obtain v where v: "v \<in> set (map fst PAGES_ADMIN)"
      "st_selectbox u (lit ''Navigate'') (map fst PAGES_ADMIN) 0 = PStr v"
    using selectbox_member [of "map fst PAGES_ADMIN" u "lit ''Navigate''"]
    by (auto simp: PAGES_ADMIN_def)
  from v(1) obtain g where g: "map_of PAGES_ADMIN v = Some g"
    by (auto simp: PAGES_ADMIN_def lit_def)
  with r i v(2) have "arg = None \<and> f = g"
    by (auto simp: main_def Let_def split: if_splits)
  with g show ?thesis
    by (auto dest: map_of_SomeD)
qed

lemma student_reach:
  assumes "role a = PStr (lit ''STUDENT'')" and "truthy (student_id a)"
  shows "fst (main (Some a) \<lparr>clicked = None, chosen = (\<lambda>_. Some (lit ''My Dashboard'')), typed = (\<lambda>_. None)\<rparr>)
           = Invoke Page_student_dashboard (Some (student_id a))"
    and "fst (main (Some a) \<lparr>clicked = None, chosen = (\<lambda>_. Some (lit ''My Profile'')), typed = (\<lambda>_. None)\<rparr>)
           = Invoke Page_student_profile (Some (student_id a))"
    and "fst (main (Some a) \<lparr>clicked = None, chosen = (\<lambda>_. Some (lit ''Opportunities'')), typed = (\<lambda>_. None)\<rparr>)
           = Invoke Page_opportunities_student (Some (student_id a))"
    and "fst (main (Some a) \<lparr>clicked = None, chosen = (\<lambda>_. Some (lit ''Reports'')), typed = (\<lambda>_. None)\<rparr>)
           = Invoke Page_reports None"
  using assms by (simp_all add: main_def PAGES_STUDENT_def st_selectbox_def lit_def)

lemma student_only:
  assumes r: "role a = PStr (lit ''STUDENT'')" and t: "truthy (student_id a)"
      and i: "fst (main (Some a) u) = Invoke f arg"
  shows "(f, arg) \<in> {(Page_student_dashboard, Some (student_id a)), (Page_student_profile, Some (student_id a)),
            (Page_opportunities_student, Some (student_id a)), (Page_reports, None)}"
proof -
  obtain v where v: "v \<in> set (map fst PAGES_STUDENT)"
      "st_selectbox u (lit ''Navigate'') (map fst PAGES_STUDENT) 0 = PStr v"
    using selectbox_member [of "map fst PAGES_STUDENT" u "lit ''Navigate''"]
    by (auto simp: PAGES_STUDENT_def)
  from v(1) have "v = lit ''My Dashboard'' \<or> v = lit ''My Profile'' \<or> v = lit ''Opportunities''
      \<or> v = lit ''Reports''"
    by (auto simp: PAGES_STUDENT_def)
  with r t i v(2) show ?thesis
    by (auto simp: main_def Let_def PAGES_STUDENT_def lit_def split: if_splits)
qed

text \<open>
  C2. What a session can reach depends on its role (and, for a student, on the linked
  \<open>student_id\<close>) alone. With role \<open>ADMIN\<close> the navigation offers the eight admin names
  and the page functions that a run can call are exactly the eight admin pages, called
  without argument. With role \<open>STUDENT\<close> and a \<open>student_id\<close> that counts as true, the
  navigation offers the four student names and the calls that a run can make are exactly
  the dashboard, the profile and the student's opportunities with that \<open>student_id\<close>, and
  the reports without argument. With role \<open>STUDENT\<close> and no such \<open>student_id\<close> every run
  ends with the one error message (or with the rerun of a logout) and calls no page. No
  run of a student session calls one of the seven admin pages that write.
\<close>

theorem pages_by_role:
  "(role a = PStr (lit ''ADMIN'') \<longrightarrow>
       map fst PAGES_ADMIN = [lit ''Students'', lit ''Opportunities'', lit ''Announcements'', lit ''Assessments'', lit ''Interviews'', lit ''Applications'', lit ''Reports'', lit ''Users'']
       \<and> {f. \<exists>u arg. fst (main (Some a) u) = Invoke f arg} =
           {Page_students, Page_opportunities_admin, Page_announcements_admin, Page_assessments_admin, Page_interviews_admin, Page_applications_admin, Page_reports, Page_users_admin}
       \<and> (\<forall>u f arg. fst (main (Some a) u) = Invoke f arg \<longrightarrow> arg = None))
   \<and> (role a = PStr (lit ''STUDENT'') \<and> truthy (student_id a) \<longrightarrow>
       map fst PAGES_STUDENT = [lit ''My Dashboard'', lit ''My Profile'', lit ''Opportunities'', lit ''Reports'']
       \<and> {(f, arg). \<exists>u. fst (main (Some a) u) = Invoke f arg} =
           {(Page_student_dashboard, Some (student_id a)), (Page_student_profile, Some (student_id a)),
            (Page_opportunities_student, Some (student_id a)), (Page_reports, None)})
   \<and> (role a = PStr (lit ''STUDENT'') \<and> \<not> truthy (student_id a) \<longrightarrow>
       (\<forall>u. fst (main (Some a) u) =
              Error_only (lit ''This student user is not linked to a student record. Ask Admin to link it.'')
            \<or> fst (main (Some a) u) = Rerun))
   \<and> (role a = PStr (lit ''STUDENT'') \<longrightarrow>
       (\<forall>u f arg. fst (main (Some a) u) = Invoke f arg \<longrightarrow> f \<notin> admin_crud_pages))
   \<and> (role a = role b \<and> student_id a = student_id b \<longrightarrow> fst (main (Some a) u) = fst (main (Some b) u))"
proof -
  have c1: "role a = PStr (lit ''ADMIN'') \<longrightarrow>
       map fst PAGES_ADMIN = [lit ''Students'', lit ''Opportunities'', lit ''Announcements'', lit ''Assessments'', lit ''Interviews'', lit ''Applications'', lit ''Reports'', lit ''Users'']
       \<and> {f. \<exists>u arg. fst (main (Some a) u) = Invoke f arg} =
           {Page_students, Page_opportunities_admin, Page_announcements_admin, Page_assessments_admin, Page_interviews_admin, Page_applications_admin, Page_reports, Page_users_admin}
       \<and> (\<forall>u f arg. fst (main (Some a) u) = Invoke f arg \<longrightarrow> arg = None)"
  proof (intro impI conjI)
    assume r: "role a = PStr (lit ''ADMIN'')"
    show "map fst PAGES_ADMIN = [lit ''Students'', lit ''Opportunities'', lit ''Announcements'', lit ''Assessments'', lit ''Interviews'', lit ''Applications'', lit ''Reports'', lit ''Users'']"
      by (simp add: PAGES_ADMIN_def)
    show "{f. \<exists>u arg. fst (main (Some a) u) = Invoke f arg} =
           {Page_students, Page_opportunities_admin, Page_announcements_admin, Page_assessments_admin, Page_interviews_admin, Page_applications_admin, Page_reports, Page_users_admin}"
    proof (intro equalityI subsetI)
      fix f assume "f \<in> {f. \<exists>u arg. fst (main (Some a) u) = Invoke f arg}"
      then obtain u arg where "fst (main (Some a) u) = Invoke f arg" by blast
      from admin_only [OF r this] obtain n where "(n, f) \<in> set PAGES_ADMIN" by blast
      then show "f \<in> {Page_students, Page_opportunities_admin, Page_announcements_admin, Page_assessments_admin, Page_interviews_admin, Page_applications_admin, Page_reports, Page_users_admin}"
        unfolding PAGES_ADMIN_def by auto
    next
      fix f assume "f \<in> {Page_students, Page_opportunities_admin, Page_announcements_admin, Page_assessments_admin, Page_interviews_admin, Page_applications_admin, Page_reports, Page_users_admin}"
      then consider "f = Page_students" | "f = Page_opportunities_admin" | "f = Page_announcements_admin" | "f = Page_assessments_admin" | "f = Page_interviews_admin" | "f = Page_applications_admin" | "f = Page_reports" | "f = Page_users_admin"
        by blast
      then show "f \<in> {f. \<exists>u arg. fst (main (Some a) u) = Invoke f arg}"
      proof cases
        case 1
        have "(lit ''Students'', f) \<in> set PAGES_ADMIN"
          using 1 by (simp add: PAGES_ADMIN_def)
        from admin_reach [OF r this] show ?thesis by blast
      next
        case 2
        have "(lit ''Opportunities'', f) \<in> set PAGES_ADMIN"
          using 2 by (simp add: PAGES_ADMIN_def)
        from admin_reach [OF r this] show ?thesis by blast
      next
        case 3
        have "(lit ''Announcements'', f) \<in> set PAGES_ADMIN"
          using 3 by (simp add: PAGES_ADMIN_def)
        from admin_reach [OF r this] show ?thesis by blast
      next
        case 4
        have "(lit ''Assessments'', f) \<in> set PAGES_ADMIN"
          using 4 by (simp add: PAGES_ADMIN_def)
        from admin_reach [OF r this] show ?thesis by blast
      next
        case 5
        have "(lit ''Interviews'', f) \<in> set PAGES_ADMIN"
          using 5 by (simp add: PAGES_ADMIN_def)
        from admin_reach [OF r this] show ?thesis by blast
      next
        case 6
        have "(lit ''Applications'', f) \<in> set PAGES_ADMIN"
          using 6 by (simp add: PAGES_ADMIN_def)
        from admin_reach [OF r this] show ?thesis by blast
      next
        case 7
        have "(lit ''Reports'', f) \<in> set PAGES_ADMIN"
          using 7 by (simp add: PAGES_ADMIN_def)
        from admin_reach [OF r this] show ?thesis by blast
      next
        case 8
        have "(lit ''Users'', f) \<in> set PAGES_ADMIN"
          using 8 by (simp add: PAGES_ADMIN_def)
        from admin_reach [OF r this] show ?thesis by blast
      qed
    qed
    show "\<forall>u f arg. fst (main (Some a) u) = Invoke f arg \<longrightarrow> arg = None"
      using admin_only [OF r] by blast
  qed
  have c2: "role a = PStr (lit ''STUDENT'') \<and> truthy (student_id a) \<longrightarrow>
       map fst PAGES_STUDENT = [lit ''My Dashboard'', lit ''My Profile'', lit ''Opportunities'', lit ''Reports'']
       \<and> {(f, arg). \<exists>u. fst (main (Some a) u) = Invoke f arg} =
           {(Page_student_dashboard, Some (student_id a)), (Page_student_profile, Some (student_id a)),
            (Page_opportunities_student, Some (student_id a)), (Page_reports, None)}"
  proof (intro impI conjI)
    assume "role a = PStr (lit ''STUDENT'') \<and> truthy (student_id a)"
    then have r: "role a = PStr (lit ''STUDENT'')" and t: "truthy (student_id a)" by simp_all
    show "map fst PAGES_STUDENT = [lit ''My Dashboard'', lit ''My Profile'', lit ''Opportunities'', lit ''Reports'']"
      by (simp add: PAGES_STUDENT_def)
    show "{(f, arg). \<exists>u. fst (main (Some a) u) = Invoke f arg} =
           {(Page_student_dashboard, Some (student_id a)), (Page_student_profile, Some (student_id a)),
            (Page_opportunities_student, Some (student_id a)), (Page_reports, None)}"
    proof (intro equalityI subsetI)
      fix x assume "x \<in> {(f, arg). \<exists>u. fst (main (Some a) u) = Invoke f arg}"
      then obtain u where "fst (main (Some a) u) = Invoke (fst x) (snd x)" by auto
      from student_only [OF r t this]
      show "x \<in> {(Page_student_dashboard, Some (student_id a)), (Page_student_profile, Some (student_id a)),
            (Page_opportunities_student, Some (student_id a)), (Page_reports, None)}"
        by (cases x) auto
    next
      fix x assume "x \<in> {(Page_student_dashboard, Some (student_id a)), (Page_student_profile, Some (student_id a)),
            (Page_opportunities_student, Some (student_id a)), (Page_reports, None)}"
      then consider "x = (Page_student_dashboard, Some (student_id a))"
        | "x = (Page_student_profile, Some (student_id a))"
        | "x = (Page_opportunities_student, Some (student_id a))"
        | "x = (Page_reports, None)"
        by blast
      then have "\<exists>u. fst (main (Some a) u) = Invoke (fst x) (snd x)"
      proof cases
        case 1
        with student_reach(1) [OF r t] show ?thesis by (intro exI) simp
      next
        case 2
        with student_reach(2) [OF r t] show ?thesis by (intro exI) simp
      next
        case 3
        with student_reach(3) [OF r t] show ?thesis by (intro exI) simp
      next
        case 4
        with student_reach(4) [OF r t] show ?thesis by (intro exI) simp
      qed
      then show "x \<in> {(f, arg). \<exists>u. fst (main (Some a) u) = Invoke f arg}"
        by (cases x) simp
    qed
  qed
  have c3: "role a = PStr (lit ''STUDENT'') \<and> \<not> truthy (student_id a) \<longrightarrow>
       (\<forall>u. fst (main (Some a) u) =
              Error_only (lit ''This student user is not linked to a student record. Ask Admin to link it.'')
            \<or> fst (main (Some a) u) = Rerun)"
    by (simp add: main_def lit_def)
  have c4: "role a = PStr (lit ''STUDENT'') \<longrightarrow>
       (\<forall>u f arg. fst (main (Some a) u) = Invoke f arg \<longrightarrow> f \<notin> admin_crud_pages)"
  proof (intro impI allI)
    fix u f arg
    assume r: "role a = PStr (lit ''STUDENT'')" and i: "fst (main (Some a) u) = Invoke f arg"
    have t: "truthy (student_id a)"
      by (rule ccontr) (use r i in \<open>simp add: main_def lit_def split: if_splits\<close>)
    from student_only [OF r t, of u f arg] i show "f \<notin> admin_crud_pages"
      by (auto simp: admin_crud_pages_def)
  qed
  have c5: "role a = role b \<and> student_id a = student_id b \<longrightarrow> fst (main (Some a) u) = fst (main (Some b) u)"
  proof (intro impI)
    assume e: "role a = role b \<and> student_id a = student_id b"
    show "fst (main (Some a) u) = fst (main (Some b) u)"
      by (cases "role b = PStr (lit ''ADMIN'')"; cases "role b = PStr (lit ''STUDENT'')";
          cases "truthy (student_id b)"; cases "clicked u = Some (lit ''Logout'')")
         (use e in \<open>simp_all add: main_def Let_def\<close>)
  qed
  show ?thesis
    by (rule conjI [OF c1 conjI [OF c2 conjI [OF c3 conjI [OF c4 c5]]]])
qed

theorem pages_by_role_witness:
  "fst (main (Some aarav) open_profile) = Invoke Page_student_profile (Some (PInt 1))
   \<and> Page_student_profile \<notin> admin_crud_pages
   \<and> fst (main (Some (aarav\<lparr>student_id := PNone\<rparr>)) open_profile)
       = Error_only (lit ''This student user is not linked to a student record. Ask Admin to link it.'')
   \<and> fst (main (Some (aarav\<lparr>role := PStr (lit ''ADMIN'')\<rparr>))
            \<lparr>clicked = None, chosen = (\<lambda>_. Some (lit ''Users'')), typed = (\<lambda>_. None)\<rparr>)
       = Invoke Page_users_admin None
   \<and> Page_users_admin
       \<in> {f. \<exists>u arg. fst (main (Some (aarav\<lparr>role := PStr (lit ''ADMIN'')\<rparr>)) u) = Invoke f arg}"
proof -
  have 1: "fst (main (Some aarav) open_profile) = Invoke Page_student_profile (Some (PInt 1))"
    by (simp add: main_def aarav_def open_profile_def st_selectbox_def PAGES_STUDENT_def lit_def)
  have ra: "role aarav = PStr (lit ''STUDENT'')"
    by (simp add: aarav_def)
  note s4 = pages_by_role [where a = aarav and b = aarav and u = open_profile,
      THEN conjunct2, THEN conjunct2, THEN conjunct2, THEN conjunct1, rule_format, OF ra]
  have 2: "Page_student_profile \<notin> admin_crud_pages"
    by (rule s4 [OF 1])
  have 3: "fst (main (Some (aarav\<lparr>student_id := PNone\<rparr>)) open_profile)
       = Error_only (lit ''This student user is not linked to a student record. Ask Admin to link it.'')"
    by (simp add: main_def aarav_def open_profile_def lit_def)
  have 4: "fst (main (Some (aarav\<lparr>role := PStr (lit ''ADMIN'')\<rparr>))
            \<lparr>clicked = None, chosen = (\<lambda>_. Some (lit ''Users'')), typed = (\<lambda>_. None)\<rparr>)
       = Invoke Page_users_admin None"
    by (simp add: main_def aarav_def st_selectbox_def PAGES_ADMIN_def lit_def)
  have 5: "Page_users_admin
       \<in> {f. \<exists>u arg. fst (main (Some (aarav\<lparr>role := PStr (lit ''ADMIN'')\<rparr>)) u) = Invoke f arg}"
  proof -
    have rb: "role (aarav\<lparr>role := PStr (lit ''ADMIN'')\<rparr>) = PStr (lit ''ADMIN'')"
      by simp
    note s1 = pages_by_role [where a = "aarav\<lparr>role := PStr (lit ''ADMIN'')\<rparr>" and b = aarav
        and u = open_profile, THEN conjunct1, rule_format, OF rb]
    show ?thesis
      by (subst s1 [THEN conjunct2, THEN conjunct1]) simp
  qed
  from 1 2 3 4 5 show ?thesis by simp
qed

section \<open>Login: the comparison of the password hash\<close>

text \<open>The model of \<open>hashlib.sha256\<close> on a password, against the digest Python prints.\<close>

lemma sha256_hex_adminpass:
  "sha256_hex (lit ''adminpass'')
     = Inr (lit ''713bfda78870bf9d1b261f565286f85e97ee614efe5f0faf7c34e7ca4f65baca'')"
  by code_simp

lemma sha256_hex_encoded:
  "encode_utf8 password = Inr bs \<Longrightarrow> sha256_hex password = Inr (hexdigest (sha256 bs))"
  by (simp add: sha256_hex_def)

text \<open>
  C1. Let the lookup \<open>SELECT ... FROM users WHERE username=%s\<close> return \<open>rows\<close> (each with the
  five columns it selects), and let \<open>bs\<close> be the UTF-8 encoding of the password. Then
  \<open>authenticate\<close> returns, without touching the database again, and what it returns is a
  user record exactly when there is a first row and its \<open>password_hash\<close> is the string of
  the lowercase hexadecimal SHA-256 digest of \<open>bs\<close>; the record then carries \<open>user_id\<close>,
  \<open>username\<close>, \<open>role\<close> and \<open>student_id\<close> of that row; in every other case (no row, or
  another hash) it returns \<open>None\<close>. When the lookup returns at most one row, as it does
  when user names are unique, "a first row" is "a row".
\<close>

theorem authenticate_checks_hash:
  assumes q: "query B ''SELECT user_id, username, password_hash, role, student_id FROM users WHERE username=%s''
                [Val (PStr uname)] w = (Inr rows, w1)"
      and cols: "\<forall>u \<in> set rows. u ''user_id'' \<noteq> None \<and> u ''username'' \<noteq> None
                   \<and> u ''password_hash'' \<noteq> None \<and> u ''role'' \<noteq> None \<and> u ''student_id'' \<noteq> None"
      and enc: "encode_utf8 password = Inr bs"
  shows "\<exists>res. authenticate B uname password w = (Inr res, w1)
           \<and> (res \<noteq> None \<longleftrightarrow>
                (\<exists>u rest. rows = u # rest \<and> u ''password_hash'' = Some (PStr (hexdigest (sha256 bs)))))
           \<and> (length rows \<le> 1 \<longrightarrow>
                (res \<noteq> None \<longleftrightarrow>
                  (\<exists>u \<in> set rows. u ''password_hash'' = Some (PStr (hexdigest (sha256 bs))))))
           \<and> (\<forall>a. res = Some a \<longrightarrow>
                (\<exists>u rest. rows = u # rest \<and> u ''user_id'' = Some (user_id a)
                   \<and> u ''username'' = Some (username a) \<and> u ''role'' = Some (role a)
                   \<and> u ''student_id'' = Some (student_id a)))"
proof (cases rows)
  case Nil
  with q show ?thesis
    by (simp add: authenticate_def bnd_def ret_def)
next
  case (Cons u rest)
  with cols obtain i n s ro st where c:
    "u ''user_id'' = Some i" "u ''username'' = Some n" "u ''password_hash'' = Some s"
    "u ''role'' = Some ro" "u ''student_id'' = Some st"
    by auto
  have h: "lift (sha256_hex password) = (ret (hexdigest (sha256 bs)) :: ('a, pystr) prog)"
    by (simp add: sha256_hex_encoded [OF enc] lift_def)
  show ?thesis
  proof (cases "s = PStr (hexdigest (sha256 bs))")
    case True
    with q Cons c h show ?thesis
      by (simp add: authenticate_def bnd_def ret_def)
  next
    case False
    with q Cons c h show ?thesis
      by (simp add: authenticate_def bnd_def ret_def)
  qed
qed

theorem authenticate_checks_hash_witness:
  "authenticate (failing_at 99 [admin_record]) (lit ''admin'') (lit ''adminpass'') world0
     = (Inr (Some \<lparr>user_id = PInt 1, username = PStr (lit ''admin''), role = PStr (lit ''ADMIN''),
                   student_id = PNone\<rparr>),
        world0\<lparr>server := 4, opened := 1,
          calls := [\<lparr>op_of = Query,
                     sql_of = ''SELECT user_id, username, password_hash, role, student_id FROM users WHERE username=%s'',
                     params_of = [Val (PStr (lit ''admin''))], outcome = None\<rparr>]\<rparr>)
   \<and> encode_utf8 (lit ''adminpass'') = Inr [97, 100, 109, 105, 110, 112, 97, 115, 115]
   \<and> fst (authenticate (failing_at 99 []) (lit ''admin'') (lit ''adminpass'') world0) = Inr None"
proof -
  have q: "query (failing_at 99 rows)
             ''SELECT user_id, username, password_hash, role, student_id FROM users WHERE username=%s''
             [Val (PStr (lit ''admin''))] world0
       = (Inr rows, world0\<lparr>server := 4, opened := 1,
            calls := [\<lparr>op_of = Query,
                     sql_of = ''SELECT user_id, username, password_hash, role, student_id FROM users WHERE username=%s'',
                     params_of = [Val (PStr (lit ''admin''))], outcome = None\<rparr>]\<rparr>)" for rows
    by (simp add: failing_at_query world0_def)
  have enc: "encode_utf8 (lit ''adminpass'') = Inr [97, 100, 109, 105, 110, 112, 97, 115, 115]"
    by (simp add: encode_utf8_def utf8_of_def lit_def)
  have cols: "\<forall>u \<in> set [admin_record]. u ''user_id'' \<noteq> None \<and> u ''username'' \<noteq> None
                   \<and> u ''password_hash'' \<noteq> None \<and> u ''role'' \<noteq> None \<and> u ''student_id'' \<noteq> None"
    by (simp add: admin_record_def)
  have hash: "hexdigest (sha256 [97, 100, 109, 105, 110, 112, 97, 115, 115])
      = lit ''713bfda78870bf9d1b261f565286f85e97ee614efe5f0faf7c34e7ca4f65baca''"
    using sha256_hex_adminpass by (simp add: sha256_hex_def enc)
  have stored: "admin_record ''password_hash''
      = Some (PStr (lit ''713bfda78870bf9d1b261f565286f85e97ee614efe5f0faf7c34e7ca4f65baca''))"
    "admin_record ''user_id'' = Some (PInt 1)" "admin_record ''username'' = Some (PStr (lit ''admin''))"
    "admin_record ''role'' = Some (PStr (lit ''ADMIN''))" "admin_record ''student_id'' = Some PNone"
    by (simp_all add: admin_record_def)
  from authenticate_checks_hash [OF q [of "[admin_record]"] cols enc]
  obtain res where r: "authenticate (failing_at 99 [admin_record]) (lit ''admin'') (lit ''adminpass'') world0
        = (Inr res, world0\<lparr>server := 4, opened := 1,
            calls := [\<lparr>op_of = Query,
                     sql_of = ''SELECT user_id, username, password_hash, role, student_id FROM users WHERE username=%s'',
                     params_of = [Val (PStr (lit ''admin''))], outcome = None\<rparr>]\<rparr>)"
      and some: "res \<noteq> None"
      and fields: "\<forall>a. res = Some a \<longrightarrow>
                (\<exists>u rest. [admin_record] = u # rest \<and> u ''user_id'' = Some (user_id a)
                   \<and> u ''username'' = Some (username a) \<and> u ''role'' = Some (role a)
                   \<and> u ''student_id'' = Some (student_id a))"
    unfolding hash using stored(1) by auto
  from some obtain a where a: "res = Some a" by auto
  with fields stored have "user_id a = PInt 1" "username a = PStr (lit ''admin'')"
    "role a = PStr (lit ''ADMIN'')" "student_id a = PNone"
    by auto
  then have "a = \<lparr>user_id = PInt 1, username = PStr (lit ''admin''), role = PStr (lit ''ADMIN''),
                   student_id = PNone\<rparr>"
    by (cases a) simp
  with r a have 1: "authenticate (failing_at 99 [admin_record]) (lit ''admin'') (lit ''adminpass'') world0
     = (Inr (Some \<lparr>user_id = PInt 1, username = PStr (lit ''admin''), role = PStr (lit ''ADMIN''),
                   student_id = PNone\<rparr>),
        world0\<lparr>server := 4, opened := 1,
          calls := [\<lparr>op_of = Query,
                     sql_of = ''SELECT user_id, username, password_hash, role, student_id FROM users WHERE username=%s'',
                     params_of = [Val (PStr (lit ''admin''))], outcome = None\<rparr>]\<rparr>)"
    by simp
  have 3: "fst (authenticate (failing_at 99 []) (lit ''admin'') (lit ''adminpass'') world0) = Inr None"
    by (simp add: authenticate_def bnd_def q ret_def)
  from 1 enc 3 show ?thesis by simp
qed


end
